theory Spec2Isabelle
  imports Main
begin

section \<open>The handlers of the mock OIDC provider (handlers.go)\<close>

text \<open>
  The request handlers of \<^verbatim>\<open>handlers.go\<close> as functions on an explicit response
  writer and an explicit server state. A Go \<^verbatim>\<open>error\<close> is the string its
  \<^verbatim>\<open>Error()\<close> method renders, a byte slice is a string, and a handler that writes to
  \<^verbatim>\<open>rw\<close> returns the writer it was given, updated.
\<close>

subsection \<open>Constants\<close>

definition InvalidRequest :: string where "InvalidRequest = ''invalid_request''"
definition InvalidClient :: string where "InvalidClient = ''invalid_client''"
definition InvalidGrant :: string where "InvalidGrant = ''invalid_grant''"
definition UnsupportedGrantType :: string where "UnsupportedGrantType = ''unsupported_grant_type''"
definition InvalidScope :: string where "InvalidScope = ''invalid_scope''"

definition AuthorizationEndpoint :: string where "AuthorizationEndpoint = ''/oidc/authorize''"
definition TokenEndpoint :: string where "TokenEndpoint = ''/oidc/token''"
definition UserinfoEndpoint :: string where "UserinfoEndpoint = ''/oidc/userinfo''"
definition JWKSEndpoint :: string where "JWKSEndpoint = ''/oidc/.well-known/jwks.json''"

definition applicationJSON :: string where "applicationJSON = ''application/json''"
definition openidScope :: string where "openidScope = ''openid''"

definition GrantTypesSupported :: "string list" where
  "GrantTypesSupported = [''authorization_code'', ''refresh_token'']"
definition ResponseTypesSupported :: "string list" where
  "ResponseTypesSupported = [''code'']"
definition SubjectTypesSupported :: "string list" where
  "SubjectTypesSupported = [''public'']"
definition IDTokenSigningAlgValuesSupported :: "string list" where
  "IDTokenSigningAlgValuesSupported = [''RS256'']"
definition ScopesSupported :: "string list" where
  "ScopesSupported = [''openid'', ''email'', ''groups'', ''profile'']"
definition TokenEndpointAuthMethodsSupported :: "string list" where
  "TokenEndpointAuthMethodsSupported = [''client_secret_basic'', ''client_secret_post'']"
definition ClaimsSupported :: "string list" where
  "ClaimsSupported = [''sub'', ''email'', ''email_verified'', ''preferred_username'',
     ''phone_number'', ''address'', ''groups'', ''iss'', ''aud'']"

text \<open>The status codes of \<^verbatim>\<open>net/http\<close> that the handlers use.\<close>

definition StatusOK :: nat where "StatusOK = 200"
definition StatusFound :: nat where "StatusFound = 302"
definition StatusBadRequest :: nat where "StatusBadRequest = 400"
definition StatusUnauthorized :: nat where "StatusUnauthorized = 401"
definition StatusInternalServerError :: nat where "StatusInternalServerError = 500"

subsection \<open>Requests and responses\<close>

text \<open>
  \<^verbatim>\<open>url.Values\<close> is a map from a key to the list of its values; \<^verbatim>\<open>Get\<close> is the first
  value of the key, or the empty string when the key has none; \<^verbatim>\<open>Set\<close> replaces the
  values of the key by one value.
\<close>

type_synonym Values = "string \<rightharpoonup> string list"

definition Get :: "Values \<Rightarrow> string \<Rightarrow> string" where
  "Get v key = (case v key of None \<Rightarrow> [] | Some [] \<Rightarrow> [] | Some (x # _) \<Rightarrow> x)"

definition Set_value :: "Values \<Rightarrow> string \<Rightarrow> string \<Rightarrow> Values" where
  "Set_value v key val = v(key \<mapsto> [val])"

text \<open>
  Of a request the handlers read the method (inside \<^verbatim>\<open>http.Redirect\<close>), the form
  that \<^verbatim>\<open>ParseForm\<close> fills, the error \<^verbatim>\<open>ParseForm\<close> returns, if any, and the
  \<^verbatim>\<open>Authorization\<close> header (the empty string when absent).
\<close>

record request =
  Method :: string
  Form :: Values
  ParseForm :: "string option"
  Authorization :: string

text \<open>
  What \<^verbatim>\<open>encoding/json\<close> renders: an object is the list of its fields in the order
  they are written. A body chunk is a JSON object, bytes a collaborator rendered, or the
  short HTML note with a link that \<^verbatim>\<open>http.Redirect\<close> writes.
\<close>

datatype json = JString string | JNumber int | JArray "json list"

datatype body = Object "(string \<times> json) list" | Bytes string | Anchor string

text \<open>
  The response writer is a recorder: the header map, the status code once
  \<^verbatim>\<open>WriteHeader\<close> has been called (a later call does not change it), and the chunks
  written. Writing to the recorder does not fail, so the \<^verbatim>\<open>panic\<close> after a failed
  \<^verbatim>\<open>rw.Write\<close> has no branch here.
\<close>

record response =
  Header :: "string \<rightharpoonup> string"
  StatusCode :: "nat option"
  Body :: "body list"

definition NewRecorder :: response where
  "NewRecorder = \<lparr>Header = Map.empty, StatusCode = None, Body = []\<rparr>"

definition Header_Set :: "response \<Rightarrow> string \<Rightarrow> string \<Rightarrow> response" where
  "Header_Set rw key val = rw\<lparr>Header := (Header rw)(key \<mapsto> val)\<rparr>"

definition WriteHeader :: "response \<Rightarrow> nat \<Rightarrow> response" where
  "WriteHeader rw statusCode =
     (case StatusCode rw of None \<Rightarrow> rw\<lparr>StatusCode := Some statusCode\<rparr> | Some _ \<Rightarrow> rw)"

definition Write :: "response \<Rightarrow> body \<Rightarrow> response" where
  "Write rw data = rw\<lparr>Body := Body rw @ [data]\<rparr>"

subsection \<open>Tokens, sessions and the server\<close>

text \<open>
  A claim of a verified token is a decoded JSON value. The handlers use a number in one
  way only, the conversion \<^verbatim>\<open>int64(exp)\<close>, so a \<^verbatim>\<open>float64\<close> is kept as the integer
  that conversion yields. \<^verbatim>\<open>token.Claims\<close> is an interface: the type assertion to
  \<^verbatim>\<open>jwt.MapClaims\<close> succeeds on \<open>MapClaims\<close> only.
\<close>

datatype claim = Float64 int | String string | Bool bool | Null

datatype claims = MapClaims "string \<rightharpoonup> claim" | StandardClaims

record token =
  Raw :: string
  Claims :: claims

text \<open>
  Modelled from the spec: the \<^verbatim>\<open>Session\<close> struct, declared outside handlers.go. The
  spec (section 3) gives it an opaque identifier that doubles as the authorization code,
  the requested scopes as an ordered sequence of strings, an optional nonce, the bound
  synthetic user and the \<^verbatim>\<open>Granted\<close> boolean.
\<close>

record 'u session =
  SessionID :: string
  Scopes :: "string list"
  OIDCNonce :: string
  User :: 'u
  Granted :: bool

text \<open>
  Modelled from the spec: the session store, declared outside handlers.go. It owns the
  sessions and hands out references to them: a session fetched by its identifier is the
  stored one, so the write \<^verbatim>\<open>session.Granted = true\<close> of the core is a write to the
  entry of the store. \<^verbatim>\<open>GetSessionByID\<close> is the spec's "fetch by id" and fails when the
  identifier is absent.
\<close>

type_synonym 'u store = "string \<rightharpoonup> 'u session"

definition GetSessionByID :: "'u store \<Rightarrow> string \<Rightarrow> 'u session option" where
  "GetSessionByID ss code = ss code"

text \<open>
  The state of the server that a request can change: the sessions of the store and the
  queue of synthetic users.
\<close>

record ('u, 'q) state =
  SessionStore :: "'u store"
  UserQueue :: 'q

text \<open>
  The receiver \<^verbatim>\<open>m *MockOIDC\<close>: its configuration, the reading of its injected clock
  in Unix seconds (\<^verbatim>\<open>m.Now().Unix()\<close>), and the operations of its collaborators, which
  are declared outside handlers.go and are parameters here: the key pair
  (\<^verbatim>\<open>VerifyJWT\<close>, \<^verbatim>\<open>JWKS\<close>), the token minting methods of a session (each takes the
  session and the clock reading; \<^verbatim>\<open>m.Config()\<close> and \<^verbatim>\<open>m.Keypair\<close> are part of
  \<open>m\<close>), \<^verbatim>\<open>User.Userinfo\<close>, the store's \<^verbatim>\<open>NewSession\<close> (the new session and the
  store that holds it) and \<^verbatim>\<open>GetSessionByToken\<close>, and the user queue's \<^verbatim>\<open>Pop\<close>.
  \<open>Inl\<close> carries the text of the error an operation returns.
\<close>

record ('u, 'q) mockoidc =
  ClientID :: string
  ClientSecret :: string
  AccessTTL :: int
  Issuer :: string
  Now :: int
  VerifyJWT :: "string \<Rightarrow> string + token"
  Keypair_JWKS :: "string + string"
  Session_AccessToken :: "'u session \<Rightarrow> int \<Rightarrow> string + string"
  Session_IDToken :: "'u session \<Rightarrow> int \<Rightarrow> string + string"
  Session_RefreshToken :: "'u session \<Rightarrow> int \<Rightarrow> string + string"
  User_Userinfo :: "'u \<Rightarrow> string list \<Rightarrow> string + string"
  NewSession :: "'u store \<Rightarrow> string \<Rightarrow> string \<Rightarrow> 'u \<Rightarrow> string + ('u session \<times> 'u store)"
  GetSessionByToken :: "'u store \<Rightarrow> token \<Rightarrow> string + 'u session"
  Pop :: "'q \<Rightarrow> 'u \<times> 'q"

text \<open>
  The functions of \<^verbatim>\<open>net/url\<close> and \<^verbatim>\<open>net/http\<close> that \<^verbatim>\<open>Authorize\<close> calls on the
  redirect URI are parameters as well: parsing a URL, parsing and encoding a query string,
  rendering a URL, and the \<^verbatim>\<open>Location\<close> value \<^verbatim>\<open>http.Redirect\<close> derives from its
  target (a relative target is resolved against the request, bytes outside ASCII are
  escaped).
\<close>

record url =
  Scheme :: string
  Host :: string
  Path :: string
  RawQuery :: string
  Fragment :: string

record net =
  url_Parse :: "string \<Rightarrow> string + url"
  url_ParseQuery :: "string \<Rightarrow> Values"
  url_Encode :: "Values \<Rightarrow> string"
  url_String :: "url \<Rightarrow> string"
  redirect_Location :: "request \<Rightarrow> string \<Rightarrow> string"

subsection \<open>Writing responses\<close>

definition noCache :: "response \<Rightarrow> response" where
  "noCache rw =
     (let rw = Header_Set rw ''Cache-Control'' ''no-cache, no-store, must-revalidate, max-age=0''
      in Header_Set rw ''Pragma'' ''no-cache'')"

text \<open>
  \<^verbatim>\<open>json.Marshal\<close> of a map of strings renders the keys in sorted order and does not
  fail, so the \<^verbatim>\<open>http.Error\<close> branch of \<^verbatim>\<open>errorResponse\<close> is not taken.
\<close>

definition errorResponse :: "response \<Rightarrow> string \<Rightarrow> string \<Rightarrow> nat \<Rightarrow> response" where
  "errorResponse rw error description statusCode =
     (let resp = Object [(''error'', JString error), (''error_description'', JString description)];
          rw = noCache rw;
          rw = Header_Set rw ''Content-Type'' applicationJSON;
          rw = WriteHeader rw statusCode
      in Write rw resp)"

definition internalServerError :: "response \<Rightarrow> string \<Rightarrow> response" where
  "internalServerError rw errorMsg =
     errorResponse rw ''internal_server_error'' errorMsg StatusInternalServerError"

definition jsonResponse :: "response \<Rightarrow> body \<Rightarrow> response" where
  "jsonResponse rw data =
     (let rw = noCache rw;
          rw = Header_Set rw ''Content-Type'' applicationJSON;
          rw = WriteHeader rw StatusOK
      in Write rw data)"

text \<open>
  \<^verbatim>\<open>http.Redirect\<close> of the standard library: it sets \<^verbatim>\<open>Location\<close>, sets a content
  type when none is set and the method is GET or HEAD, writes the status code and, for
  GET with no content type set before, a short HTML body. It sets no other header.
\<close>

definition Redirect :: "net \<Rightarrow> response \<Rightarrow> request \<Rightarrow> string \<Rightarrow> nat \<Rightarrow> response" where
  "Redirect lib rw req target code =
     (let hadCT = (Header rw ''Content-Type'' \<noteq> None);
          rw = Header_Set rw ''Location'' (redirect_Location lib req target);
          rw = (if \<not> hadCT \<and> (Method req = ''GET'' \<or> Method req = ''HEAD'')
                then Header_Set rw ''Content-Type'' ''text/html; charset=utf-8'' else rw);
          rw = WriteHeader rw code
      in if \<not> hadCT \<and> Method req = ''GET'' then Write rw (Anchor target) else rw)"

subsection \<open>Validator primitives\<close>

fun assertPresence :: "string list \<Rightarrow> response \<Rightarrow> request \<Rightarrow> response \<times> bool" where
  "assertPresence [] rw req = (rw, True)"
| "assertPresence (param # params) rw req =
     (if Get (Form req) param \<noteq> [] then assertPresence params rw req
      else (errorResponse rw InvalidRequest
              (''The request is missing the required parameter: '' @ param) StatusBadRequest,
            False))"

text \<open>
  \<^verbatim>\<open>subtle.ConstantTimeCompare\<close> of the standard library returns 1 when the two byte
  slices have equal contents and 0 otherwise (0 at once when their lengths differ).
\<close>

definition ConstantTimeCompare :: "string \<Rightarrow> string \<Rightarrow> int" where
  "ConstantTimeCompare x y = (if length x \<noteq> length y then 0 else if x = y then 1 else 0)"

definition assertEqual ::
  "string \<Rightarrow> string \<Rightarrow> string \<Rightarrow> string \<Rightarrow> response \<Rightarrow> request \<Rightarrow> response \<times> bool" where
  "assertEqual param val errorType errorMsg rw req =
     (let formValue = Get (Form req) param
      in if ConstantTimeCompare val formValue = 0
         then (errorResponse rw errorType (errorMsg @ '': '' @ formValue) StatusUnauthorized, False)
         else (rw, True))"

text \<open>\<^verbatim>\<open>strings.Split\<close> with a separator of one byte: \<open>Split [] sep\<close> is one empty string.\<close>

fun Split :: "string \<Rightarrow> char \<Rightarrow> string list" where
  "Split [] sep = [[]]"
| "Split (c # cs) sep =
     (if c = sep then [] # Split cs sep
      else (case Split cs sep of [] \<Rightarrow> [[c]] | w # ws \<Rightarrow> (c # w) # ws))"

text \<open>
  \<^verbatim>\<open>strings.SplitN(s, " ", 2)\<close>: the text before the first separator and the rest, or
  the string itself when it has no separator.
\<close>

definition SplitN2 :: "string \<Rightarrow> char \<Rightarrow> string list" where
  "SplitN2 s sep =
     (if sep \<in> set s then [takeWhile (\<lambda>c. c \<noteq> sep) s, tl (dropWhile (\<lambda>c. c \<noteq> sep) s)]
      else [s])"

definition allowed :: "string \<rightharpoonup> unit" where
  "allowed = fold (\<lambda>scope a. a(scope \<mapsto> ())) ScopesSupported Map.empty"

fun validateScope_loop :: "string list \<Rightarrow> response \<Rightarrow> response \<times> bool" where
  "validateScope_loop [] rw = (rw, True)"
| "validateScope_loop (scope # scopes) rw =
     (if allowed scope = None
      then (errorResponse rw InvalidScope (''Unsupported scope: '' @ scope) StatusBadRequest,
            False)
      else validateScope_loop scopes rw)"

definition validateScope :: "response \<Rightarrow> request \<Rightarrow> response \<times> bool" where
  "validateScope rw req = validateScope_loop (Split (Get (Form req) ''scope'') CHR '' '') rw"

subsection \<open>The bearer authorizer\<close>

definition authorizeToken ::
  "('u, 'q) mockoidc \<Rightarrow> string \<Rightarrow> response \<Rightarrow> response \<times> token option" where
  "authorizeToken m t rw =
     (case VerifyJWT m t of
        Inl err \<Rightarrow>
          (errorResponse rw InvalidRequest (''Invalid token: '' @ err) StatusUnauthorized, None)
      | Inr token \<Rightarrow>
          (case Claims token of
             StandardClaims \<Rightarrow> (internalServerError rw ''Unable to extract token claims'', None)
           | MapClaims claims \<Rightarrow>
               (case claims ''exp'' of
                  Some (Float64 exp) \<Rightarrow>
                    if Now m > exp
                    then (errorResponse rw InvalidRequest ''The token is expired''
                            StatusUnauthorized, None)
                    else (rw, Some token)
                | _ \<Rightarrow> (internalServerError rw ''Unable to extract token expiration'', None))))"

definition authorizeBearer ::
  "('u, 'q) mockoidc \<Rightarrow> response \<Rightarrow> request \<Rightarrow> response \<times> token option" where
  "authorizeBearer m rw req =
     (let header = Authorization req;
          parts = SplitN2 header CHR '' ''
      in if length parts < 2 \<or> parts ! 0 \<noteq> ''Bearer''
         then (errorResponse rw InvalidRequest ''Invalid authorization header''
                 StatusUnauthorized, None)
         else authorizeToken m (parts ! 1) rw)"

subsection \<open>Authorize\<close>

definition Authorize ::
  "net \<Rightarrow> ('u, 'q) mockoidc \<Rightarrow> ('u, 'q) state \<Rightarrow> response \<Rightarrow> request
     \<Rightarrow> response \<times> ('u, 'q) state" where
  "Authorize lib m st rw req =
     (case ParseForm req of
        Some err \<Rightarrow> (internalServerError rw err, st)
      | None \<Rightarrow>
     (case assertPresence
             [''scope'', ''state'', ''client_id'', ''response_type'', ''redirect_uri''] rw req of
        (rw, False) \<Rightarrow> (rw, st)
      | (rw, True) \<Rightarrow>
     (case validateScope rw req of
        (rw, False) \<Rightarrow> (rw, st)
      | (rw, True) \<Rightarrow>
     (case assertEqual ''client_id'' (ClientID m) InvalidClient ''Invalid client id'' rw req of
        (rw, False) \<Rightarrow> (rw, st)
      | (rw, True) \<Rightarrow>
     (case assertEqual ''response_type'' ''code'' UnsupportedGrantType
             ''Invalid response type'' rw req of
        (rw, False) \<Rightarrow> (rw, st)
      | (rw, True) \<Rightarrow>
     (case Pop m (UserQueue st) of (user, queue) \<Rightarrow>
     (let st = st\<lparr>UserQueue := queue\<rparr>
      in case NewSession m (SessionStore st) (Get (Form req) ''scope'')
                (Get (Form req) ''nonce'') user of
           Inl err \<Rightarrow> (internalServerError rw err, st)
         | Inr (session, ss) \<Rightarrow>
     (let st = st\<lparr>SessionStore := ss\<rparr>
      in case url_Parse lib (Get (Form req) ''redirect_uri'') of
           Inl err \<Rightarrow> (internalServerError rw err, st)
         | Inr redirectURI \<Rightarrow>
     (let params = url_ParseQuery lib (RawQuery redirectURI);
          params = Set_value params ''code'' (SessionID session);
          params = Set_value params ''state'' (Get (Form req) ''state'');
          redirectURI = redirectURI\<lparr>RawQuery := url_Encode lib params\<rparr>
      in (Redirect lib rw req (url_String lib redirectURI) StatusFound, st))))))))))"

subsection \<open>Token\<close>

record tokenResponse =
  AccessToken :: string
  RefreshToken :: string
  IDToken :: string
  TokenType :: string
  ExpiresIn :: int

text \<open>
  \<^verbatim>\<open>json.Marshal\<close> of a \<^verbatim>\<open>tokenResponse\<close>: the fields in the order of the struct,
  the three tagged \<^verbatim>\<open>omitempty\<close> left out when empty. It does not fail on a struct of
  strings and an integer, so the error branch after it in \<^verbatim>\<open>Token\<close> is not taken.
\<close>

definition Marshal_tokenResponse :: "tokenResponse \<Rightarrow> body" where
  "Marshal_tokenResponse tr = Object
     ((if AccessToken tr = [] then [] else [(''access_token'', JString (AccessToken tr))]) @
      (if RefreshToken tr = [] then [] else [(''refresh_token'', JString (RefreshToken tr))]) @
      (if IDToken tr = [] then [] else [(''id_token'', JString (IDToken tr))]) @
      [(''token_type'', JString (TokenType tr)), (''expires_in'', JNumber (ExpiresIn tr))])"

definition validateTokenParams ::
  "('u, 'q) mockoidc \<Rightarrow> response \<Rightarrow> request \<Rightarrow> response \<times> bool" where
  "validateTokenParams m rw req =
     (case assertPresence [''client_id'', ''client_secret'', ''grant_type''] rw req of
        (rw, False) \<Rightarrow> (rw, False)
      | (rw, True) \<Rightarrow>
     (case assertEqual ''client_id'' (ClientID m) InvalidClient ''Invalid client id'' rw req of
        (rw, False) \<Rightarrow> (rw, False)
      | (rw, True) \<Rightarrow>
     (case assertEqual ''client_secret'' (ClientSecret m) InvalidClient
             ''Invalid client secret'' rw req of
        (rw, False) \<Rightarrow> (rw, False)
      | (rw, True) \<Rightarrow> (rw, True))))"

text \<open>
  The two grant validators return the session with the flag \<^verbatim>\<open>valid\<close>; here
  \<open>None\<close> is \<^verbatim>\<open>(nil, false)\<close> and \<open>Some session\<close> is \<^verbatim>\<open>(session, true)\<close>.
  \<^verbatim>\<open>validateCodeGrant\<close> writes \<^verbatim>\<open>Granted\<close> through the reference the store handed out,
  that is, to the entry under \<^verbatim>\<open>code\<close>.
\<close>

definition validateCodeGrant ::
  "('u, 'q) mockoidc \<Rightarrow> ('u, 'q) state \<Rightarrow> response \<Rightarrow> request
     \<Rightarrow> response \<times> ('u, 'q) state \<times> 'u session option" where
  "validateCodeGrant m st rw req =
     (case assertPresence [''code''] rw req of
        (rw, False) \<Rightarrow> (rw, st, None)
      | (rw, True) \<Rightarrow>
     (case assertEqual ''grant_type'' ''authorization_code'' UnsupportedGrantType
             ''Invalid grant type'' rw req of
        (rw, False) \<Rightarrow> (rw, st, None)
      | (rw, True) \<Rightarrow>
     (let code = Get (Form req) ''code''
      in case GetSessionByID (SessionStore st) code of
           None \<Rightarrow>
             (errorResponse rw InvalidGrant (''Invalid code: '' @ code) StatusUnauthorized,
              st, None)
         | Some session \<Rightarrow>
             if Granted session
             then (errorResponse rw InvalidGrant (''Invalid code: '' @ code) StatusUnauthorized,
                   st, None)
             else (let session = session\<lparr>Granted := True\<rparr>
                   in (rw, st\<lparr>SessionStore := (SessionStore st)(code \<mapsto> session)\<rparr>,
                       Some session)))))"

definition validateRefreshGrant ::
  "('u, 'q) mockoidc \<Rightarrow> ('u, 'q) state \<Rightarrow> response \<Rightarrow> request
     \<Rightarrow> response \<times> 'u session option" where
  "validateRefreshGrant m st rw req =
     (case assertPresence [''refresh_token''] rw req of
        (rw, False) \<Rightarrow> (rw, None)
      | (rw, True) \<Rightarrow>
     (case assertEqual ''grant_type'' ''refresh_token'' UnsupportedGrantType
             ''Invalid grant type'' rw req of
        (rw, False) \<Rightarrow> (rw, None)
      | (rw, True) \<Rightarrow>
     (let refreshToken = Get (Form req) ''refresh_token''
      in case authorizeToken m refreshToken rw of
           (rw, None) \<Rightarrow> (rw, None)
         | (rw, Some token) \<Rightarrow>
             (case GetSessionByToken m (SessionStore st) token of
                Inl err \<Rightarrow>
                  (errorResponse rw InvalidGrant ''Invalid refresh token'' StatusUnauthorized,
                   None)
              | Inr session \<Rightarrow> (rw, Some session)))))"

definition setTokens ::
  "('u, 'q) mockoidc \<Rightarrow> tokenResponse \<Rightarrow> 'u session \<Rightarrow> string \<Rightarrow> string + tokenResponse" where
  "setTokens m tr s grantType =
     (case Session_AccessToken m s (Now m) of
        Inl err \<Rightarrow> Inl err
      | Inr accessToken \<Rightarrow>
     (let tr = tr\<lparr>AccessToken := accessToken\<rparr>
      in case (if length (Scopes s) > 0 \<and> Scopes s ! 0 = openidScope
               then (case Session_IDToken m s (Now m) of
                       Inl err \<Rightarrow> Inl err
                     | Inr idToken \<Rightarrow> Inr (tr\<lparr>IDToken := idToken\<rparr>))
               else Inr tr) of
           Inl err \<Rightarrow> Inl err
         | Inr tr \<Rightarrow>
             if grantType \<noteq> ''refresh_token''
             then (case Session_RefreshToken m s (Now m) of
                     Inl err \<Rightarrow> Inl err
                   | Inr refreshToken \<Rightarrow> Inr (tr\<lparr>RefreshToken := refreshToken\<rparr>))
             else Inr tr))"

text \<open>
  The part of \<^verbatim>\<open>Token\<close> after the \<^verbatim>\<open>switch\<close>, which both grants reach with their
  session: the response is assembled and written.
\<close>

definition Token_assemble ::
  "('u, 'q) mockoidc \<Rightarrow> response \<Rightarrow> request \<Rightarrow> 'u session \<Rightarrow> string \<Rightarrow> response" where
  "Token_assemble m rw req session grantType =
     (let tr = \<lparr>AccessToken = [], RefreshToken = Get (Form req) ''refresh_token'',
                IDToken = [], TokenType = ''bearer'', ExpiresIn = AccessTTL m\<rparr>
      in case setTokens m tr session grantType of
           Inl err \<Rightarrow> internalServerError rw err
         | Inr tr \<Rightarrow>
             (let resp = Marshal_tokenResponse tr;
                  rw = noCache rw
              in jsonResponse rw resp))"

definition Token ::
  "('u, 'q) mockoidc \<Rightarrow> ('u, 'q) state \<Rightarrow> response \<Rightarrow> request \<Rightarrow> response \<times> ('u, 'q) state" where
  "Token m st rw req =
     (case ParseForm req of
        Some err \<Rightarrow> (internalServerError rw err, st)
      | None \<Rightarrow>
     (case validateTokenParams m rw req of
        (rw, False) \<Rightarrow> (rw, st)
      | (rw, True) \<Rightarrow>
     (let grantType = Get (Form req) ''grant_type''
      in if grantType = ''authorization_code''
         then (case validateCodeGrant m st rw req of
                 (rw, st, None) \<Rightarrow> (rw, st)
               | (rw, st, Some session) \<Rightarrow> (Token_assemble m rw req session grantType, st))
         else if grantType = ''refresh_token''
         then (case validateRefreshGrant m st rw req of
                 (rw, None) \<Rightarrow> (rw, st)
               | (rw, Some session) \<Rightarrow> (Token_assemble m rw req session grantType, st))
         else (errorResponse rw InvalidRequest (''Invalid grant type: '' @ grantType)
                 StatusBadRequest, st))))"

subsection \<open>Userinfo, Discovery and JWKS\<close>

definition Userinfo ::
  "('u, 'q) mockoidc \<Rightarrow> ('u, 'q) state \<Rightarrow> response \<Rightarrow> request \<Rightarrow> response \<times> ('u, 'q) state" where
  "Userinfo m st rw req =
     (case authorizeBearer m rw req of
        (rw, None) \<Rightarrow> (rw, st)
      | (rw, Some token) \<Rightarrow>
     (case GetSessionByToken m (SessionStore st) token of
        Inl err \<Rightarrow> (internalServerError rw err, st)
      | Inr session \<Rightarrow>
     (case User_Userinfo m (User session) (Scopes session) of
        Inl err \<Rightarrow> (internalServerError rw err, st)
      | Inr resp \<Rightarrow> (jsonResponse rw (Bytes resp), st))))"

text \<open>
  \<^verbatim>\<open>json.Marshal\<close> of the discovery document: strings and arrays of strings, in the
  order of the struct; it does not fail.
\<close>

definition Discovery ::
  "('u, 'q) mockoidc \<Rightarrow> ('u, 'q) state \<Rightarrow> response \<Rightarrow> response \<times> ('u, 'q) state" where
  "Discovery m st rw =
     (let resp = Object
        [(''issuer'', JString (Issuer m)),
         (''authorization_endpoint'', JString (Issuer m @ AuthorizationEndpoint)),
         (''token_endpoint'', JString (Issuer m @ TokenEndpoint)),
         (''jwks_uri'', JString (Issuer m @ JWKSEndpoint)),
         (''userinfo_endpoint'', JString (Issuer m @ UserinfoEndpoint)),
         (''grant_types_supported'', JArray (map JString GrantTypesSupported)),
         (''response_types_supported'', JArray (map JString ResponseTypesSupported)),
         (''subject_types_supported'', JArray (map JString SubjectTypesSupported)),
         (''id_token_signing_alg_values_supported'',
            JArray (map JString IDTokenSigningAlgValuesSupported)),
         (''scopes_supported'', JArray (map JString ScopesSupported)),
         (''token_endpoint_auth_methods_supported'',
            JArray (map JString TokenEndpointAuthMethodsSupported)),
         (''claims_supported'', JArray (map JString ClaimsSupported))]
      in (jsonResponse rw resp, st))"

definition JWKS ::
  "('u, 'q) mockoidc \<Rightarrow> ('u, 'q) state \<Rightarrow> response \<Rightarrow> response \<times> ('u, 'q) state" where
  "JWKS m st rw =
     (case Keypair_JWKS m of
        Inl err \<Rightarrow> (internalServerError rw err, st)
      | Inr jwks \<Rightarrow> (jsonResponse rw (Bytes jwks), st))"

subsection \<open>Reading a response, running requests\<close>

text \<open>
  A response is an error response of a status code, kind and description when that code
  was written and the body is the one JSON object \<^verbatim>\<open>errorResponse\<close> renders.
\<close>

definition is_error :: "response \<Rightarrow> nat \<Rightarrow> string \<Rightarrow> string \<Rightarrow> bool" where
  "is_error rw statusCode kind description \<longleftrightarrow>
     StatusCode rw = Some statusCode \<and>
     Body rw = [Object [(''error'', JString kind), (''error_description'', JString description)]]"

definition has_noCache :: "response \<Rightarrow> bool" where
  "has_noCache rw \<longleftrightarrow>
     Header rw ''Cache-Control'' = Some ''no-cache, no-store, must-revalidate, max-age=0'' \<and>
     Header rw ''Pragma'' = Some ''no-cache''"

text \<open>The value of a field of the JSON object that is the body of a response.\<close>

fun field :: "body list \<Rightarrow> string \<Rightarrow> json option" where
  "field [Object fs] key = map_of fs key"
| "field _ key = None"

text \<open>
  The token response \<^verbatim>\<open>Token\<close> starts from, before \<^verbatim>\<open>setTokens\<close> fills it.
\<close>

definition initial_tokenResponse :: "('u, 'q) mockoidc \<Rightarrow> request \<Rightarrow> tokenResponse" where
  "initial_tokenResponse m req =
     \<lparr>AccessToken = [], RefreshToken = Get (Form req) ''refresh_token'',
      IDToken = [], TokenType = ''bearer'', ExpiresIn = AccessTTL m\<rparr>"

text \<open>
  A sequence of requests to the token endpoint, each served with a fresh response writer
  on the state the one before left.
\<close>

fun Token_run :: "('u, 'q) mockoidc \<Rightarrow> ('u, 'q) state \<Rightarrow> request list \<Rightarrow> ('u, 'q) state" where
  "Token_run m st [] = st"
| "Token_run m st (req # reqs) = Token_run m (snd (Token m st NewRecorder req)) reqs"

text \<open>
  The states such a sequence passes through, whether the session of a code is granted in a
  state, and the number of steps of a sequence of states in which the session of a code
  goes from not granted to granted.
\<close>

fun Token_trace :: "('u, 'q) mockoidc \<Rightarrow> ('u, 'q) state \<Rightarrow> request list \<Rightarrow> ('u, 'q) state list" where
  "Token_trace m st [] = [st]"
| "Token_trace m st (req # reqs) = st # Token_trace m (snd (Token m st NewRecorder req)) reqs"

definition is_granted :: "('u, 'q) state \<Rightarrow> string \<Rightarrow> bool" where
  "is_granted st code = (case SessionStore st code of None \<Rightarrow> False | Some s \<Rightarrow> Granted s)"

fun grants :: "string \<Rightarrow> ('u, 'q) state list \<Rightarrow> nat" where
  "grants code (a # b # sts) =
     (if \<not> is_granted a code \<and> is_granted b code then 1 else 0) + grants code (b # sts)"
| "grants code sts = 0"

subsection \<open>A concrete server\<close>

text \<open>
  A small server on which the theorems below are instantiated: client \<open>cid\<close> with secret
  \<open>secret\<close>, the clock at 1000, a key pair that accepts three token strings (one valid
  until 2000, one expired at 10, one without an expiry), users that are their names, and a
  store with one ungranted session \<open>c1\<close> and one granted session \<open>c2\<close>.
\<close>

definition example_session :: "string session" where
  "example_session =
     \<lparr>SessionID = ''c1'', Scopes = [''openid'', ''profile''], OIDCNonce = [],
      User = ''alice'', Granted = False\<rparr>"

definition example_granted :: "string session" where
  "example_granted =
     \<lparr>SessionID = ''c2'', Scopes = [''email'', ''openid''], OIDCNonce = [],
      User = ''bob'', Granted = True\<rparr>"

definition example_token :: "string \<Rightarrow> string + token" where
  "example_token t =
     (if t = ''rt-c1''
      then Inr \<lparr>Raw = t, Claims = MapClaims [''exp'' \<mapsto> Float64 2000, ''jti'' \<mapsto> String ''c1'']\<rparr>
      else if t = ''old-c1''
      then Inr \<lparr>Raw = t, Claims = MapClaims [''exp'' \<mapsto> Float64 10, ''jti'' \<mapsto> String ''c1'']\<rparr>
      else if t = ''noexp-c1''
      then Inr \<lparr>Raw = t, Claims = MapClaims [''jti'' \<mapsto> String ''c1'']\<rparr>
      else Inl ''token contains an invalid number of segments'')"

definition example_byToken :: "string store \<Rightarrow> token \<Rightarrow> string + string session" where
  "example_byToken ss token =
     (case Claims token of
        MapClaims cl \<Rightarrow>
          (case cl ''jti'' of
             Some (String i) \<Rightarrow> (case ss i of Some s \<Rightarrow> Inr s | None \<Rightarrow> Inl ''session not found'')
           | _ \<Rightarrow> Inl ''invalid token id'')
      | StandardClaims \<Rightarrow> Inl ''invalid token claims'')"

definition example_newSession ::
  "string store \<Rightarrow> string \<Rightarrow> string \<Rightarrow> string \<Rightarrow> string + (string session \<times> string store)" where
  "example_newSession ss scope nonce user =
     (if ss ''c3'' = None
      then (let s = \<lparr>SessionID = ''c3'', Scopes = Split scope CHR '' '', OIDCNonce = nonce,
                      User = user, Granted = False\<rparr>
            in Inr (s, ss(''c3'' \<mapsto> s)))
      else Inl ''no session identifier left'')"

definition example_m :: "(string, string list) mockoidc" where
  "example_m =
     \<lparr>ClientID = ''cid'', ClientSecret = ''secret'', AccessTTL = 600,
      Issuer = ''http://idp'', Now = 1000,
      VerifyJWT = example_token,
      Keypair_JWKS = Inr ''keys'',
      Session_AccessToken = (\<lambda>s now. Inr (''at-'' @ SessionID s)),
      Session_IDToken = (\<lambda>s now. Inr (''id-'' @ SessionID s)),
      Session_RefreshToken = (\<lambda>s now. Inr (''rt-'' @ SessionID s)),
      User_Userinfo = (\<lambda>user scopes. Inr user),
      NewSession = example_newSession,
      GetSessionByToken = example_byToken,
      Pop = (\<lambda>queue. case queue of [] \<Rightarrow> (''default'', []) | user # rest \<Rightarrow> (user, rest))\<rparr>"

definition example_st :: "(string, string list) state" where
  "example_st =
     \<lparr>SessionStore = [''c1'' \<mapsto> example_session, ''c2'' \<mapsto> example_granted],
      UserQueue = [''carol'']\<rparr>"

definition example_lib :: net where
  "example_lib =
     \<lparr>url_Parse = (\<lambda>s. Inr \<lparr>Scheme = ''https'', Host = ''app'', Path = ''/cb'',
                             RawQuery = [], Fragment = []\<rparr>),
      url_ParseQuery = (\<lambda>q. Map.empty),
      url_Encode = (\<lambda>v. ''code='' @ Get v ''code'' @ ''&state='' @ Get v ''state''),
      url_String = (\<lambda>u. Scheme u @ ''://'' @ Host u @ Path u @ ''?'' @ RawQuery u),
      redirect_Location = (\<lambda>req target. target)\<rparr>"

definition form_of :: "(string \<times> string) list \<Rightarrow> request" where
  "form_of kvs =
     \<lparr>Method = ''POST'', Form = map_of (map (\<lambda>(k, v). (k, [v])) kvs), ParseForm = None,
      Authorization = []\<rparr>"

definition code_request :: "string \<Rightarrow> request" where
  "code_request code =
     form_of [(''client_id'', ''cid''), (''client_secret'', ''secret''),
              (''grant_type'', ''authorization_code''), (''code'', code)]"

definition refresh_request :: "string \<Rightarrow> request" where
  "refresh_request t =
     form_of [(''client_id'', ''cid''), (''client_secret'', ''secret''),
              (''grant_type'', ''refresh_token''), (''refresh_token'', t)]"

definition authorize_request :: "string \<Rightarrow> request" where
  "authorize_request scope =
     form_of [(''scope'', scope), (''state'', ''abc''), (''client_id'', ''cid''),
              (''response_type'', ''code''), (''redirect_uri'', ''https://app/cb'')]"

definition bearer_request :: "string \<Rightarrow> request" where
  "bearer_request t =
     \<lparr>Method = ''GET'', Form = Map.empty, ParseForm = None, Authorization = ''Bearer '' @ t\<rparr>"

section \<open>Properties\<close>

subsection \<open>Response writers and validator primitives\<close>

lemma NewRecorder_simps [simp]:
  "Header NewRecorder = Map.empty" "StatusCode NewRecorder = None" "Body NewRecorder = []"
  by (simp_all add: NewRecorder_def)

lemma Header_errorResponse:
  "Header (errorResponse rw kind description statusCode) =
     (Header rw)(''Cache-Control'' \<mapsto> ''no-cache, no-store, must-revalidate, max-age=0'',
                 ''Pragma'' \<mapsto> ''no-cache'', ''Content-Type'' \<mapsto> applicationJSON)"
  by (simp add: errorResponse_def noCache_def Header_Set_def WriteHeader_def Write_def Let_def
      split: option.split)

lemma StatusCode_errorResponse:
  "StatusCode (errorResponse rw kind description statusCode) =
     (case StatusCode rw of None \<Rightarrow> Some statusCode | Some c \<Rightarrow> Some c)"
  by (simp add: errorResponse_def noCache_def Header_Set_def WriteHeader_def Write_def Let_def
      split: option.split)

lemma Body_errorResponse:
  "Body (errorResponse rw kind description statusCode) =
     Body rw @ [Object [(''error'', JString kind), (''error_description'', JString description)]]"
  by (simp add: errorResponse_def noCache_def Header_Set_def WriteHeader_def Write_def Let_def
      split: option.split)

lemma is_error_errorResponse:
  "is_error (errorResponse NewRecorder kind description statusCode) c k d \<longleftrightarrow>
     c = statusCode \<and> k = kind \<and> d = description"
  by (auto simp: is_error_def StatusCode_errorResponse Body_errorResponse)

lemma has_noCache_errorResponse: "has_noCache (errorResponse rw kind description statusCode)"
  by (simp add: has_noCache_def Header_errorResponse)

lemma Header_jsonResponse:
  "Header (jsonResponse rw data) =
     (Header rw)(''Cache-Control'' \<mapsto> ''no-cache, no-store, must-revalidate, max-age=0'',
                 ''Pragma'' \<mapsto> ''no-cache'', ''Content-Type'' \<mapsto> applicationJSON)"
  by (simp add: jsonResponse_def noCache_def Header_Set_def WriteHeader_def Write_def Let_def
      split: option.split)

lemma StatusCode_jsonResponse:
  "StatusCode (jsonResponse rw data) =
     (case StatusCode rw of None \<Rightarrow> Some StatusOK | Some c \<Rightarrow> Some c)"
  by (simp add: jsonResponse_def noCache_def Header_Set_def WriteHeader_def Write_def Let_def
      split: option.split)

lemma Body_jsonResponse: "Body (jsonResponse rw data) = Body rw @ [data]"
  by (simp add: jsonResponse_def noCache_def Header_Set_def WriteHeader_def Write_def Let_def
      split: option.split)

lemma has_noCache_jsonResponse: "has_noCache (jsonResponse rw data)"
  by (simp add: has_noCache_def Header_jsonResponse)

lemma noCache_fields [simp]:
  "StatusCode (noCache rw) = StatusCode rw" "Body (noCache rw) = Body rw"
  by (simp_all add: noCache_def Header_Set_def Let_def)

lemma assertPresence_find:
  "assertPresence params rw req =
     (case find (\<lambda>param. Get (Form req) param = []) params of
        None \<Rightarrow> (rw, True)
      | Some param \<Rightarrow>
          (errorResponse rw InvalidRequest
             (''The request is missing the required parameter: '' @ param) StatusBadRequest,
           False))"
  by (induction params) simp_all

lemma ConstantTimeCompare_eq: "ConstantTimeCompare x y = (if x = y then 1 else 0)"
  by (auto simp: ConstantTimeCompare_def)

lemma assertEqual_eq:
  "assertEqual param val errorType errorMsg rw req =
     (if Get (Form req) param = val then (rw, True)
      else (errorResponse rw errorType (errorMsg @ '': '' @ Get (Form req) param)
              StatusUnauthorized, False))"
  by (auto simp: assertEqual_def ConstantTimeCompare_eq Let_def)

lemma allowed_iff: "allowed scope = None \<longleftrightarrow> scope \<notin> set ScopesSupported"
  by (simp add: allowed_def ScopesSupported_def)

lemma validateScope_loop_find:
  "validateScope_loop scopes rw =
     (case find (\<lambda>scope. scope \<notin> set ScopesSupported) scopes of
        None \<Rightarrow> (rw, True)
      | Some scope \<Rightarrow>
          (errorResponse rw InvalidScope (''Unsupported scope: '' @ scope) StatusBadRequest,
           False))"
  by (induction scopes) (simp_all add: allowed_iff)

lemma validateTokenParams_eq:
  "validateTokenParams m rw req =
     (case find (\<lambda>param. Get (Form req) param = [])
             [''client_id'', ''client_secret'', ''grant_type''] of
        Some param \<Rightarrow>
          (errorResponse rw InvalidRequest
             (''The request is missing the required parameter: '' @ param) StatusBadRequest,
           False)
      | None \<Rightarrow>
          if Get (Form req) ''client_id'' \<noteq> ClientID m
          then (errorResponse rw InvalidClient
                  (''Invalid client id: '' @ Get (Form req) ''client_id'') StatusUnauthorized,
                False)
          else if Get (Form req) ''client_secret'' \<noteq> ClientSecret m
          then (errorResponse rw InvalidClient
                  (''Invalid client secret: '' @ Get (Form req) ''client_secret'')
                  StatusUnauthorized, False)
          else (rw, True))"
  unfolding validateTokenParams_def assertPresence_find assertEqual_eq
  by (simp split: option.split)

lemma validateCodeGrant_eq:
  "validateCodeGrant m st rw req =
     (let code = Get (Form req) ''code'' in
      if code = []
      then (errorResponse rw InvalidRequest
              ''The request is missing the required parameter: code'' StatusBadRequest, st, None)
      else if Get (Form req) ''grant_type'' \<noteq> ''authorization_code''
      then (errorResponse rw UnsupportedGrantType
              (''Invalid grant type: '' @ Get (Form req) ''grant_type'') StatusUnauthorized,
            st, None)
      else (case SessionStore st code of
              None \<Rightarrow>
                (errorResponse rw InvalidGrant (''Invalid code: '' @ code) StatusUnauthorized,
                 st, None)
            | Some session \<Rightarrow>
                if Granted session
                then (errorResponse rw InvalidGrant (''Invalid code: '' @ code)
                        StatusUnauthorized, st, None)
                else (rw, st\<lparr>SessionStore := (SessionStore st)(code \<mapsto> session\<lparr>Granted := True\<rparr>)\<rparr>,
                      Some (session\<lparr>Granted := True\<rparr>))))"
  unfolding validateCodeGrant_def assertPresence_find assertEqual_eq GetSessionByID_def
  by (simp add: Let_def split: option.split)

subsection \<open>The shape of the responses of the token flow\<close>

lemma authorizeToken_eq:
  "authorizeToken m t rw =
     (case VerifyJWT m t of
        Inl err \<Rightarrow>
          (errorResponse rw InvalidRequest (''Invalid token: '' @ err) StatusUnauthorized, None)
      | Inr token \<Rightarrow>
          (case Claims token of
             StandardClaims \<Rightarrow>
               (errorResponse rw ''internal_server_error'' ''Unable to extract token claims''
                  StatusInternalServerError, None)
           | MapClaims cl \<Rightarrow>
               (case cl ''exp'' of
                  Some (Float64 e) \<Rightarrow>
                    if e < Now m
                    then (errorResponse rw InvalidRequest ''The token is expired''
                            StatusUnauthorized, None)
                    else (rw, Some token)
                | _ \<Rightarrow>
                    (errorResponse rw ''internal_server_error''
                       ''Unable to extract token expiration'' StatusInternalServerError, None))))"
  by (simp add: authorizeToken_def internalServerError_def
      split: sum.split claims.split option.split claim.split)

lemma authorizeToken_cases:
  "authorizeToken m t rw = (rw', r) \<Longrightarrow>
     (r \<noteq> None \<and> rw' = rw) \<or>
     (r = None \<and> (\<exists>kind description statusCode.
        rw' = errorResponse rw kind description statusCode \<and>
        statusCode \<in> {StatusUnauthorized, StatusInternalServerError}))"
  unfolding authorizeToken_eq
  by (auto split: sum.splits claims.splits option.splits claim.splits if_splits)

lemma SplitN2_Bearer: "SplitN2 (''Bearer '' @ t) CHR '' '' = [''Bearer'', t]"
  by (simp add: SplitN2_def)

lemma authorizeBearer_Bearer:
  "Authorization req = ''Bearer '' @ t \<Longrightarrow> authorizeBearer m rw req = authorizeToken m t rw"
  using SplitN2_Bearer [of t] by (simp add: authorizeBearer_def Let_def)

lemma authorizeBearer_cases:
  "authorizeBearer m rw req = (rw', r) \<Longrightarrow>
     (r \<noteq> None \<and> rw' = rw) \<or>
     (r = None \<and> (\<exists>kind description statusCode.
        rw' = errorResponse rw kind description statusCode \<and>
        statusCode \<in> {StatusUnauthorized, StatusInternalServerError}))"
proof (cases "length (SplitN2 (Authorization req) CHR '' '') < 2 \<or>
    SplitN2 (Authorization req) CHR '' '' ! 0 \<noteq> ''Bearer''")
  case True
  assume "authorizeBearer m rw req = (rw', r)"
  with True have "rw' = errorResponse rw InvalidRequest ''Invalid authorization header''
      StatusUnauthorized" "r = None"
    by (auto simp: authorizeBearer_def Let_def)
  then show ?thesis by blast
next
  case False
  assume "authorizeBearer m rw req = (rw', r)"
  with False have "authorizeToken m (SplitN2 (Authorization req) CHR '' '' ! 1) rw = (rw', r)"
    by (auto simp: authorizeBearer_def Let_def)
  then show ?thesis by (rule authorizeToken_cases)
qed

lemma validateRefreshGrant_eq:
  "validateRefreshGrant m st rw req =
     (let refreshToken = Get (Form req) ''refresh_token'' in
      if refreshToken = []
      then (errorResponse rw InvalidRequest
              ''The request is missing the required parameter: refresh_token''
              StatusBadRequest, None)
      else if Get (Form req) ''grant_type'' \<noteq> ''refresh_token''
      then (errorResponse rw UnsupportedGrantType
              (''Invalid grant type: '' @ Get (Form req) ''grant_type'') StatusUnauthorized,
            None)
      else (case authorizeToken m refreshToken rw of
              (rw, None) \<Rightarrow> (rw, None)
            | (rw, Some token) \<Rightarrow>
                (case GetSessionByToken m (SessionStore st) token of
                   Inl err \<Rightarrow>
                     (errorResponse rw InvalidGrant ''Invalid refresh token''
                        StatusUnauthorized, None)
                 | Inr session \<Rightarrow> (rw, Some session))))"
  unfolding validateRefreshGrant_def assertPresence_find assertEqual_eq
  by (simp add: Let_def)

lemma validateRefreshGrant_cases:
  "validateRefreshGrant m st rw req = (rw', r) \<Longrightarrow>
     (r \<noteq> None \<and> rw' = rw) \<or>
     (r = None \<and> (\<exists>kind description statusCode.
        rw' = errorResponse rw kind description statusCode \<and>
        statusCode \<in> {StatusBadRequest, StatusUnauthorized, StatusInternalServerError}))"
  unfolding validateRefreshGrant_eq Let_def
  by (auto dest!: authorizeToken_cases split: if_splits prod.splits option.splits sum.splits)

lemma validateCodeGrant_cases:
  "validateCodeGrant m st rw req = (rw', st', r) \<Longrightarrow>
     (r \<noteq> None \<and> rw' = rw) \<or>
     (r = None \<and> st' = st \<and> (\<exists>kind description statusCode.
        rw' = errorResponse rw kind description statusCode \<and>
        statusCode \<in> {StatusBadRequest, StatusUnauthorized}))"
  unfolding validateCodeGrant_eq Let_def
  by (auto split: if_splits option.splits)

lemma validateTokenParams_cases:
  "validateTokenParams m rw req = (rw', ok) \<Longrightarrow>
     (ok \<and> rw' = rw) \<or>
     (\<not> ok \<and> (\<exists>kind description statusCode.
        rw' = errorResponse rw kind description statusCode \<and>
        statusCode \<in> {StatusBadRequest, StatusUnauthorized}))"
  unfolding validateTokenParams_eq
  by (auto split: if_splits option.splits)

lemma Token_assemble_eq:
  "Token_assemble m rw req session grantType =
     (case setTokens m (initial_tokenResponse m req) session grantType of
        Inl err \<Rightarrow> errorResponse rw ''internal_server_error'' err StatusInternalServerError
      | Inr tr \<Rightarrow> jsonResponse (noCache rw) (Marshal_tokenResponse tr))"
  by (simp add: Token_assemble_def initial_tokenResponse_def internalServerError_def Let_def
      split: sum.split)

lemma Token_response_cases:
  "(\<exists>kind description statusCode.
      fst (Token m st rw req) = errorResponse rw kind description statusCode \<and>
      statusCode \<in> {StatusBadRequest, StatusUnauthorized, StatusInternalServerError}) \<or>
   (\<exists>session tr.
      setTokens m (initial_tokenResponse m req) session (Get (Form req) ''grant_type'') = Inr tr \<and>
      Get (Form req) ''grant_type'' \<in> {''authorization_code'', ''refresh_token''} \<and>
      fst (Token m st rw req) = jsonResponse (noCache rw) (Marshal_tokenResponse tr))"
proof (cases "ParseForm req")
  case (Some err)
  then have "fst (Token m st rw req) =
      errorResponse rw ''internal_server_error'' err StatusInternalServerError"
    by (simp add: Token_def internalServerError_def)
  then show ?thesis by blast
next
  case None
  obtain rw1 ok where v: "validateTokenParams m rw req = (rw1, ok)" by fastforce
  show ?thesis
  proof (cases ok)
    case False
    with v None validateTokenParams_cases [OF v] show ?thesis
      by (auto simp: Token_def)
  next
    case True
    with validateTokenParams_cases [OF v] have rw1: "rw1 = rw" by simp
    consider (code) "Get (Form req) ''grant_type'' = ''authorization_code''"
      | (refresh) "Get (Form req) ''grant_type'' = ''refresh_token''"
      | (other) "Get (Form req) ''grant_type'' \<noteq> ''authorization_code''"
          "Get (Form req) ''grant_type'' \<noteq> ''refresh_token''" by blast
    then show ?thesis
    proof cases
      case code
      obtain rw2 st2 r where c: "validateCodeGrant m st rw req = (rw2, st2, r)"
        by (metis prod_cases3)
      from validateCodeGrant_cases [OF c] show ?thesis
        using None v True rw1 code c
        by (cases r) (auto simp: Token_def Token_assemble_eq split: sum.splits)
    next
      case refresh
      obtain rw2 r where c: "validateRefreshGrant m st rw req = (rw2, r)" by fastforce
      from validateRefreshGrant_cases [OF c] show ?thesis
        using None v True rw1 refresh c
        by (cases r) (auto simp: Token_def Token_assemble_eq split: sum.splits)
    next
      case other
      then have "fst (Token m st rw req) =
          errorResponse rw InvalidRequest
            (''Invalid grant type: '' @ Get (Form req) ''grant_type'') StatusBadRequest"
        using None v True rw1 by (simp add: Token_def)
      then show ?thesis by blast
    qed
  qed
qed

subsection \<open>Requests that pass the shared pre-check of the token endpoint\<close>

lemma Get_form_of: "Get (Form (form_of kvs)) key = (case map_of kvs key of None \<Rightarrow> [] | Some v \<Rightarrow> v)"
  by (induction kvs) (auto simp: form_of_def Get_def)

lemma ParseForm_form_of: "ParseForm (form_of kvs) = None"
  by (simp add: form_of_def)

lemma Token_valid_params:
  assumes "ParseForm req = None"
    and "Get (Form req) ''client_id'' = ClientID m" and "ClientID m \<noteq> []"
    and "Get (Form req) ''client_secret'' = ClientSecret m" and "ClientSecret m \<noteq> []"
    and "Get (Form req) ''grant_type'' \<noteq> []"
  shows "Token m st rw req =
     (let grantType = Get (Form req) ''grant_type''
      in if grantType = ''authorization_code''
         then (case validateCodeGrant m st rw req of
                 (rw, st, None) \<Rightarrow> (rw, st)
               | (rw, st, Some session) \<Rightarrow> (Token_assemble m rw req session grantType, st))
         else if grantType = ''refresh_token''
         then (case validateRefreshGrant m st rw req of
                 (rw, None) \<Rightarrow> (rw, st)
               | (rw, Some session) \<Rightarrow> (Token_assemble m rw req session grantType, st))
         else (errorResponse rw InvalidRequest (''Invalid grant type: '' @ grantType)
                 StatusBadRequest, st))"
proof -
  have "validateTokenParams m rw req = (rw, True)"
    using assms by (simp add: validateTokenParams_eq)
  with assms(1) show ?thesis by (simp add: Token_def)
qed

subsection \<open>Claims about the token endpoint and the bearer authorizer\<close>

text \<open>
  C6. A request to the token endpoint whose form parses, whose \<^verbatim>\<open>client_id\<close> and
  \<^verbatim>\<open>client_secret\<close> are present and equal to the configured ones, and whose
  \<^verbatim>\<open>grant_type\<close> is present but neither \<^verbatim>\<open>authorization_code\<close> nor
  \<^verbatim>\<open>refresh_token\<close>, is answered with status 400, kind \<^verbatim>\<open>invalid_request\<close> and a
  description that names the submitted grant type. The kind is not
  \<^verbatim>\<open>unsupported_grant_type\<close>, and the state of the server is unchanged.
\<close>

theorem Token_other_grant_type:
  assumes "ParseForm req = None"
    and "Get (Form req) ''client_id'' = ClientID m" and "ClientID m \<noteq> []"
    and "Get (Form req) ''client_secret'' = ClientSecret m" and "ClientSecret m \<noteq> []"
    and "Get (Form req) ''grant_type'' = g" and "g \<noteq> []"
    and "g \<noteq> ''authorization_code''" and "g \<noteq> ''refresh_token''"
  shows "is_error (fst (Token m st NewRecorder req)) 400 ''invalid_request''
           (''Invalid grant type: '' @ g) \<and>
         (\<forall>c d. \<not> is_error (fst (Token m st NewRecorder req)) c ''unsupported_grant_type'' d) \<and>
         snd (Token m st NewRecorder req) = st"
proof -
  have "Token m st NewRecorder req =
      (errorResponse NewRecorder InvalidRequest (''Invalid grant type: '' @ g) StatusBadRequest, st)"
    using assms by (simp add: Token_valid_params)
  then show ?thesis
    by (simp add: is_error_errorResponse InvalidRequest_def StatusBadRequest_def)
qed

text \<open>The grant type \<^verbatim>\<open>password\<close> on the concrete server.\<close>

theorem Token_other_grant_type_witness:
  "is_error (fst (Token example_m example_st NewRecorder
       (form_of [(''client_id'', ''cid''), (''client_secret'', ''secret''),
                 (''grant_type'', ''password'')])))
     400 ''invalid_request'' ''Invalid grant type: password''"
  using Token_other_grant_type [of
      "form_of [(''client_id'', ''cid''), (''client_secret'', ''secret''),
                (''grant_type'', ''password'')]" example_m "''password''" example_st]
  by (simp add: Get_form_of ParseForm_form_of example_m_def)

text \<open>
  C5. Let the key pair verify the token string \<open>t\<close>. If the \<^verbatim>\<open>exp\<close> claim of the
  token is a number that lies before the reading of the injected clock, the bearer
  authorizer answers 401 with kind \<^verbatim>\<open>invalid_request\<close> and description
  "The token is expired" and returns no token; so does \<^verbatim>\<open>Userinfo\<close> for the header
  \<^verbatim>\<open>Authorization: Bearer t\<close>. If the \<^verbatim>\<open>exp\<close> claim is missing or is not a
  number, or the claims are not a map at all, the answer is 500 with kind
  \<^verbatim>\<open>internal_server_error\<close> instead.
\<close>

theorem expired_token_rejected:
  assumes "VerifyJWT m t = Inr token"
  shows
    "(\<forall>cl e. Claims token = MapClaims cl \<and> cl ''exp'' = Some (Float64 e) \<and> e < Now m \<longrightarrow>
        is_error (fst (authorizeToken m t NewRecorder)) 401 ''invalid_request''
          ''The token is expired'' \<and>
        snd (authorizeToken m t NewRecorder) = None \<and>
        (\<forall>req st. Authorization req = ''Bearer '' @ t \<longrightarrow>
           is_error (fst (Userinfo m st NewRecorder req)) 401 ''invalid_request''
             ''The token is expired'')) \<and>
     (\<forall>cl. Claims token = MapClaims cl \<and> (\<forall>e. cl ''exp'' \<noteq> Some (Float64 e)) \<longrightarrow>
        is_error (fst (authorizeToken m t NewRecorder)) 500 ''internal_server_error''
          ''Unable to extract token expiration'' \<and>
        snd (authorizeToken m t NewRecorder) = None) \<and>
     (Claims token = StandardClaims \<longrightarrow>
        is_error (fst (authorizeToken m t NewRecorder)) 500 ''internal_server_error''
          ''Unable to extract token claims'' \<and>
        snd (authorizeToken m t NewRecorder) = None)"
proof (intro conjI allI impI)
  fix cl e
  assume e: "Claims token = MapClaims cl \<and> cl ''exp'' = Some (Float64 e) \<and> e < Now m"
  with assms have a: "authorizeToken m t NewRecorder =
      (errorResponse NewRecorder InvalidRequest ''The token is expired'' StatusUnauthorized, None)"
    by (simp add: authorizeToken_eq)
  then show "is_error (fst (authorizeToken m t NewRecorder)) 401 ''invalid_request''
      ''The token is expired''"
    by (simp add: is_error_errorResponse InvalidRequest_def StatusUnauthorized_def)
  from a show "snd (authorizeToken m t NewRecorder) = None" by simp
  fix req :: request and st :: "('a, 'b) state"
  assume "Authorization req = ''Bearer '' @ t"
  with a have "Userinfo m st NewRecorder req =
      (errorResponse NewRecorder InvalidRequest ''The token is expired'' StatusUnauthorized, st)"
    by (simp add: Userinfo_def authorizeBearer_Bearer)
  then show "is_error (fst (Userinfo m st NewRecorder req)) 401 ''invalid_request''
      ''The token is expired''"
    by (simp add: is_error_errorResponse InvalidRequest_def StatusUnauthorized_def)
next
  fix cl
  assume "Claims token = MapClaims cl \<and> (\<forall>e. cl ''exp'' \<noteq> Some (Float64 e))"
  with assms have a: "authorizeToken m t NewRecorder =
      (errorResponse NewRecorder ''internal_server_error''
         ''Unable to extract token expiration'' StatusInternalServerError, None)"
    by (simp add: authorizeToken_eq split: option.split claim.split)
  then show "is_error (fst (authorizeToken m t NewRecorder)) 500 ''internal_server_error''
      ''Unable to extract token expiration''"
    by (simp add: is_error_errorResponse StatusInternalServerError_def)
  from a show "snd (authorizeToken m t NewRecorder) = None" by simp
next
  assume "Claims token = StandardClaims"
  with assms have a: "authorizeToken m t NewRecorder =
      (errorResponse NewRecorder ''internal_server_error''
         ''Unable to extract token claims'' StatusInternalServerError, None)"
    by (simp add: authorizeToken_eq)
  then show "is_error (fst (authorizeToken m t NewRecorder)) 500 ''internal_server_error''
      ''Unable to extract token claims''"
    by (simp add: is_error_errorResponse StatusInternalServerError_def)
  from a show "snd (authorizeToken m t NewRecorder) = None" by simp
qed

text \<open>
  On the concrete server the clock reads 1000: the token that expired at 10 is rejected
  with 401, the token without \<^verbatim>\<open>exp\<close> with 500.
\<close>

theorem expired_token_rejected_witness:
  "is_error (fst (authorizeToken example_m ''old-c1'' NewRecorder)) 401 ''invalid_request''
     ''The token is expired'' \<and>
   is_error (fst (Userinfo example_m example_st NewRecorder (bearer_request ''old-c1''))) 401
     ''invalid_request'' ''The token is expired'' \<and>
   is_error (fst (authorizeToken example_m ''noexp-c1'' NewRecorder)) 500
     ''internal_server_error'' ''Unable to extract token expiration''"
proof -
  have old: "VerifyJWT example_m ''old-c1'' =
      Inr \<lparr>Raw = ''old-c1'',
           Claims = MapClaims [''exp'' \<mapsto> Float64 10, ''jti'' \<mapsto> String ''c1'']\<rparr>"
    and noexp: "VerifyJWT example_m ''noexp-c1'' =
      Inr \<lparr>Raw = ''noexp-c1'', Claims = MapClaims [''jti'' \<mapsto> String ''c1'']\<rparr>"
    by (simp_all add: example_m_def example_token_def)
  have 1: "is_error (fst (authorizeToken example_m ''old-c1'' NewRecorder)) 401 ''invalid_request''
       ''The token is expired'' \<and>
     snd (authorizeToken example_m ''old-c1'' NewRecorder) = None \<and>
     (\<forall>req st. Authorization req = ''Bearer '' @ ''old-c1'' \<longrightarrow>
        is_error (fst (Userinfo example_m st NewRecorder req)) 401 ''invalid_request''
          ''The token is expired'')"
    using expired_token_rejected [OF old, THEN conjunct1, rule_format,
        of "[''exp'' \<mapsto> Float64 10, ''jti'' \<mapsto> String ''c1'']" 10]
    by (simp add: example_m_def)
  have 2: "is_error (fst (authorizeToken example_m ''noexp-c1'' NewRecorder)) 500
     ''internal_server_error'' ''Unable to extract token expiration''"
    using expired_token_rejected [OF noexp, THEN conjunct2, THEN conjunct1, rule_format,
        of "[''jti'' \<mapsto> String ''c1'']"]
    by simp
  have 3: "Authorization (bearer_request ''old-c1'') = ''Bearer '' @ ''old-c1''"
    by (simp add: bearer_request_def)
  from 1 2 3 show ?thesis by blast
qed

subsection \<open>The effect of the token endpoint on the state\<close>

lemma Token_code_grant:
  assumes "ParseForm req = None"
    and "Get (Form req) ''client_id'' = ClientID m" and "ClientID m \<noteq> []"
    and "Get (Form req) ''client_secret'' = ClientSecret m" and "ClientSecret m \<noteq> []"
    and "Get (Form req) ''grant_type'' = ''authorization_code''"
    and "Get (Form req) ''code'' = code" and "code \<noteq> []"
  shows "Token m st rw req =
     (case SessionStore st code of
        None \<Rightarrow>
          (errorResponse rw InvalidGrant (''Invalid code: '' @ code) StatusUnauthorized, st)
      | Some s \<Rightarrow>
          if Granted s
          then (errorResponse rw InvalidGrant (''Invalid code: '' @ code) StatusUnauthorized, st)
          else (Token_assemble m rw req (s\<lparr>Granted := True\<rparr>) ''authorization_code'',
                st\<lparr>SessionStore := (SessionStore st)(code \<mapsto> s\<lparr>Granted := True\<rparr>)\<rparr>))"
  using assms
  by (simp add: Token_valid_params validateCodeGrant_eq Let_def split: option.split)

lemma Token_state_cases:
  "snd (Token m st rw req) = st \<or>
   (\<exists>s. Get (Form req) ''grant_type'' = ''authorization_code'' \<and>
      SessionStore st (Get (Form req) ''code'') = Some s \<and> \<not> Granted s \<and>
      snd (Token m st rw req) =
        st\<lparr>SessionStore := (SessionStore st)(Get (Form req) ''code'' \<mapsto> s\<lparr>Granted := True\<rparr>)\<rparr>)"
proof (cases "ParseForm req")
  case (Some err)
  then show ?thesis by (simp add: Token_def)
next
  case None
  obtain rw1 ok where v: "validateTokenParams m rw req = (rw1, ok)" by fastforce
  show ?thesis
  proof (cases ok)
    case False
    with v None show ?thesis by (simp add: Token_def)
  next
    case True
    show ?thesis
    proof (cases "Get (Form req) ''grant_type'' = ''authorization_code''")
      case code: True
      with None v True show ?thesis
        by (auto simp: Token_def validateCodeGrant_eq Let_def split: option.splits)
    next
      case False
      with None v True show ?thesis
        by (simp add: Token_def Let_def split: prod.split option.split)
    qed
  qed
qed

lemma Token_keeps_granted:
  assumes "SessionStore st k = Some s" and "Granted s"
  shows "SessionStore (snd (Token m st rw req)) k = Some s"
  using Token_state_cases [of m st rw req] assms by auto

lemma Token_keeps_spent:
  assumes "SessionStore st k = None \<or> (\<exists>s. SessionStore st k = Some s \<and> Granted s)"
  shows "SessionStore (snd (Token m st rw req)) k = None \<or>
         (\<exists>s. SessionStore (snd (Token m st rw req)) k = Some s \<and> Granted s)"
proof -
  from Token_state_cases [of m st rw req] consider
    (same) "snd (Token m st rw req) = st"
    | (flip) s where "snd (Token m st rw req) =
        st\<lparr>SessionStore := (SessionStore st)(Get (Form req) ''code'' \<mapsto> s\<lparr>Granted := True\<rparr>)\<rparr>"
    by blast
  then show ?thesis
  proof cases
    case same
    with assms show ?thesis by simp
  next
    case flip
    show ?thesis
    proof (cases "k = Get (Form req) ''code''")
      case True
      with flip have "SessionStore (snd (Token m st rw req)) k = Some (s\<lparr>Granted := True\<rparr>)"
        by simp
      then show ?thesis by simp
    next
      case False
      with flip have "SessionStore (snd (Token m st rw req)) k = SessionStore st k" by simp
      with assms show ?thesis by simp
    qed
  qed
qed

lemma Token_run_keeps_granted:
  "SessionStore st k = Some s \<Longrightarrow> Granted s \<Longrightarrow> SessionStore (Token_run m st reqs) k = Some s"
  by (induction reqs arbitrary: st) (simp_all add: Token_keeps_granted)

lemma Token_run_keeps_spent:
  "SessionStore st k = None \<or> (\<exists>s. SessionStore st k = Some s \<and> Granted s) \<Longrightarrow>
   SessionStore (Token_run m st reqs) k = None \<or>
   (\<exists>s. SessionStore (Token_run m st reqs) k = Some s \<and> Granted s)"
proof (induction reqs arbitrary: st)
  case Nil
  then show ?case by simp
next
  case (Cons req reqs)
  from Token_keeps_spent [OF Cons.prems] show ?case
    by (simp add: Cons.IH)
qed

lemma Token_keeps_is_granted: "is_granted st k \<Longrightarrow> is_granted (snd (Token m st rw req)) k"
  using Token_keeps_granted [of st k _ m rw req]
  by (auto simp: is_granted_def split: option.splits)

lemma grants_after_granted: "is_granted st k \<Longrightarrow> grants k (Token_trace m st reqs) = 0"
proof (induction reqs arbitrary: st)
  case Nil
  then show ?case by simp
next
  case (Cons req reqs)
  let ?st' = "snd (Token m st NewRecorder req)"
  from Cons.prems have g: "is_granted ?st' k" by (rule Token_keeps_is_granted)
  obtain sts where t: "Token_trace m ?st' reqs = ?st' # sts" by (cases reqs) simp_all
  from Cons.IH [OF g] Cons.prems t show ?case by simp
qed

lemma grants_at_most_once: "grants k (Token_trace m st reqs) \<le> 1"
proof (induction reqs arbitrary: st)
  case Nil
  then show ?case by simp
next
  case (Cons req reqs)
  let ?st' = "snd (Token m st NewRecorder req)"
  obtain sts where t: "Token_trace m ?st' reqs = ?st' # sts" by (cases reqs) simp_all
  show ?case
  proof (cases "is_granted ?st' k")
    case True
    from grants_after_granted [OF True, of m reqs] t show ?thesis by simp
  next
    case False
    with Cons.IH [of ?st'] t show ?thesis by simp
  qed
qed

text \<open>
  C1. Authorization codes are single-use. Take a request to the token endpoint that passes
  the shared pre-check (the form parses, \<^verbatim>\<open>client_id\<close> and \<^verbatim>\<open>client_secret\<close> are the
  configured ones), with grant type \<^verbatim>\<open>authorization_code\<close> and a code \<open>code\<close>.
  \<^item> If the store holds an ungranted session under \<open>code\<close>, the request sets its
    \<^verbatim>\<open>Granted\<close> flag and changes nothing else, and it is answered with 200 and the
    assembled tokens whenever the tokens can be signed.
  \<^item> If the code is unknown to the store or its session is already granted, the answer
    is 401 with kind \<^verbatim>\<open>invalid_grant\<close> and the state is unchanged.
  \<^item> After the request, whatever its answer, and after any further requests to the token
    endpoint, the same request is answered with 401 \<^verbatim>\<open>invalid_grant\<close>.
  \<^item> Along any sequence of requests to the token endpoint, a session goes from not granted
    to granted at most once.
\<close>

theorem authorization_code_single_use:
  assumes "ParseForm req = None"
    and "Get (Form req) ''client_id'' = ClientID m" and "ClientID m \<noteq> []"
    and "Get (Form req) ''client_secret'' = ClientSecret m" and "ClientSecret m \<noteq> []"
    and "Get (Form req) ''grant_type'' = ''authorization_code''"
    and "Get (Form req) ''code'' = code" and "code \<noteq> []"
  shows
    "(\<forall>s. SessionStore st code = Some s \<and> \<not> Granted s \<longrightarrow>
        snd (Token m st NewRecorder req) =
          st\<lparr>SessionStore := (SessionStore st)(code \<mapsto> s\<lparr>Granted := True\<rparr>)\<rparr> \<and>
        (\<forall>tr. setTokens m (initial_tokenResponse m req) (s\<lparr>Granted := True\<rparr>)
                 ''authorization_code'' = Inr tr \<longrightarrow>
           StatusCode (fst (Token m st NewRecorder req)) = Some 200 \<and>
           Body (fst (Token m st NewRecorder req)) = [Marshal_tokenResponse tr])) \<and>
     (SessionStore st code = None \<or> (\<exists>s. SessionStore st code = Some s \<and> Granted s) \<longrightarrow>
        is_error (fst (Token m st NewRecorder req)) 401 ''invalid_grant''
          (''Invalid code: '' @ code) \<and>
        snd (Token m st NewRecorder req) = st) \<and>
     (\<forall>reqs. is_error
        (fst (Token m (Token_run m (snd (Token m st NewRecorder req)) reqs) NewRecorder req))
        401 ''invalid_grant'' (''Invalid code: '' @ code)) \<and>
     (\<forall>reqs k. grants k (Token_trace m st reqs) \<le> 1)"
proof -
  note T = Token_code_grant [OF assms]
  have spent: "is_error (fst (Token m st' NewRecorder req)) 401 ''invalid_grant''
        (''Invalid code: '' @ code) \<and> snd (Token m st' NewRecorder req) = st'"
    if "SessionStore st' code = None \<or> (\<exists>s. SessionStore st' code = Some s \<and> Granted s)"
    for st' :: "('a, 'b) state"
    using that
    by (auto simp: T is_error_errorResponse InvalidGrant_def StatusUnauthorized_def)
  have first: "snd (Token m st NewRecorder req) =
        st\<lparr>SessionStore := (SessionStore st)(code \<mapsto> s\<lparr>Granted := True\<rparr>)\<rparr> \<and>
      (\<forall>tr. setTokens m (initial_tokenResponse m req) (s\<lparr>Granted := True\<rparr>)
               ''authorization_code'' = Inr tr \<longrightarrow>
         StatusCode (fst (Token m st NewRecorder req)) = Some 200 \<and>
         Body (fst (Token m st NewRecorder req)) = [Marshal_tokenResponse tr])"
    if "SessionStore st code = Some s \<and> \<not> Granted s" for s
    using that
    by (simp add: T Token_assemble_eq StatusCode_jsonResponse Body_jsonResponse StatusOK_def)
  have after: "SessionStore (snd (Token m st NewRecorder req)) code = None \<or>
      (\<exists>s. SessionStore (snd (Token m st NewRecorder req)) code = Some s \<and> Granted s)"
    by (auto simp: T split: option.splits)
  have later: "is_error
        (fst (Token m (Token_run m (snd (Token m st NewRecorder req)) reqs) NewRecorder req))
        401 ''invalid_grant'' (''Invalid code: '' @ code)" for reqs
    using spent [OF Token_run_keeps_spent [OF after]] by simp
  from first spent [of st] later grants_at_most_once show ?thesis by blast
qed

text \<open>
  On the concrete server: the code \<open>c1\<close> is redeemed once with 200 and refused the
  second time; the granted \<open>c2\<close> and the unknown \<open>zz\<close> are refused.
\<close>

theorem authorization_code_single_use_witness:
  "SessionStore (snd (Token example_m example_st NewRecorder (code_request ''c1''))) ''c1'' =
     Some (example_session\<lparr>Granted := True\<rparr>) \<and>
   StatusCode (fst (Token example_m example_st NewRecorder (code_request ''c1''))) = Some 200 \<and>
   is_error
     (fst (Token example_m (snd (Token example_m example_st NewRecorder (code_request ''c1'')))
        NewRecorder (code_request ''c1'')))
     401 ''invalid_grant'' ''Invalid code: c1'' \<and>
   is_error (fst (Token example_m example_st NewRecorder (code_request ''c2''))) 401
     ''invalid_grant'' ''Invalid code: c2'' \<and>
   is_error (fst (Token example_m example_st NewRecorder (code_request ''zz''))) 401
     ''invalid_grant'' ''Invalid code: zz''"
proof -
  have h: "ParseForm (code_request c) = None"
    "Get (Form (code_request c)) ''client_id'' = ClientID example_m" "ClientID example_m \<noteq> []"
    "Get (Form (code_request c)) ''client_secret'' = ClientSecret example_m"
    "ClientSecret example_m \<noteq> []"
    "Get (Form (code_request c)) ''grant_type'' = ''authorization_code''"
    "Get (Form (code_request c)) ''code'' = c" for c
    by (simp_all add: code_request_def Get_form_of ParseForm_form_of example_m_def)
  have s: "setTokens example_m (initial_tokenResponse example_m (code_request ''c1''))
      (example_session\<lparr>Granted := True\<rparr>) ''authorization_code'' =
    Inr \<lparr>AccessToken = ''at-c1'', RefreshToken = ''rt-c1'', IDToken = ''id-c1'',
         TokenType = ''bearer'', ExpiresIn = 600\<rparr>"
    by (simp add: setTokens_def example_m_def example_session_def initial_tokenResponse_def
        openidScope_def code_request_def Get_form_of)
  have st: "SessionStore example_st ''c1'' = Some example_session \<and> \<not> Granted example_session"
    "\<exists>s. SessionStore example_st ''c2'' = Some s \<and> Granted s"
    "SessionStore example_st ''zz'' = None"
    by (simp_all add: example_st_def example_session_def example_granted_def)
  have n: "''c1'' \<noteq> []" "''c2'' \<noteq> []" "''zz'' \<noteq> []" by simp_all
  note A = authorization_code_single_use [OF h]
  note B = A [OF n(1), of example_st, THEN conjunct1, rule_format, OF st(1)]
  have 1: "SessionStore (snd (Token example_m example_st NewRecorder (code_request ''c1'')))
      ''c1'' = Some (example_session\<lparr>Granted := True\<rparr>)"
    using B [THEN conjunct1] by simp
  have 2: "StatusCode (fst (Token example_m example_st NewRecorder (code_request ''c1''))) =
      Some 200"
    using B [THEN conjunct2, rule_format, OF s] by simp
  have 3: "is_error
     (fst (Token example_m (snd (Token example_m example_st NewRecorder (code_request ''c1'')))
        NewRecorder (code_request ''c1'')))
     401 ''invalid_grant'' ''Invalid code: c1''"
    using A [OF n(1), of example_st, THEN conjunct2, THEN conjunct2, THEN conjunct1,
        rule_format, of "[]"] by simp
  have 4: "is_error (fst (Token example_m example_st NewRecorder (code_request ''c2''))) 401
     ''invalid_grant'' ''Invalid code: c2''"
    using A [OF n(2), of example_st, THEN conjunct2, THEN conjunct1, rule_format,
        OF disjI2 [OF st(2)]] by simp
  have 5: "is_error (fst (Token example_m example_st NewRecorder (code_request ''zz''))) 401
     ''invalid_grant'' ''Invalid code: zz''"
    using A [OF n(3), of example_st, THEN conjunct2, THEN conjunct1, rule_format,
        OF disjI1 [OF st(3)]] by simp
  from 1 2 3 4 5 show ?thesis by simp
qed

subsection \<open>Token assembly\<close>

lemma openid_first_iff:
  "(length scopes > 0 \<and> scopes ! 0 = openidScope) \<longleftrightarrow> (\<exists>rest. scopes = ''openid'' # rest)"
  by (cases scopes) (auto simp: openidScope_def)

lemma setTokens_Inr:
  assumes "setTokens m tr s grantType = Inr tr'"
  shows "Session_AccessToken m s (Now m) = Inr (AccessToken tr')"
    and "(\<exists>rest. Scopes s = ''openid'' # rest) \<Longrightarrow>
           Session_IDToken m s (Now m) = Inr (IDToken tr')"
    and "\<not> (\<exists>rest. Scopes s = ''openid'' # rest) \<Longrightarrow> IDToken tr' = IDToken tr"
    and "grantType \<noteq> ''refresh_token'' \<Longrightarrow>
           Session_RefreshToken m s (Now m) = Inr (RefreshToken tr')"
    and "grantType = ''refresh_token'' \<Longrightarrow> RefreshToken tr' = RefreshToken tr"
  using assms unfolding setTokens_def openid_first_iff Let_def
  by (auto split: sum.splits if_splits)

lemma setTokens_refresh_ignores_mint:
  "setTokens (m\<lparr>Session_RefreshToken := f\<rparr>) tr s ''refresh_token'' =
   setTokens m tr s ''refresh_token''"
  by (simp add: setTokens_def Let_def split: sum.split)

lemma field_refresh_token:
  "RefreshToken tr \<noteq> [] \<Longrightarrow>
   field [Marshal_tokenResponse tr] ''refresh_token'' = Some (JString (RefreshToken tr))"
  by (simp add: Marshal_tokenResponse_def)

lemma field_id_token:
  "field [Marshal_tokenResponse tr] ''id_token'' =
     (if IDToken tr = [] then None else Some (JString (IDToken tr)))"
  by (simp add: Marshal_tokenResponse_def)

lemma field_access_token:
  "field [Marshal_tokenResponse tr] ''access_token'' =
     (if AccessToken tr = [] then None else Some (JString (AccessToken tr)))"
  by (simp add: Marshal_tokenResponse_def)

lemma StatusCode_error_fresh:
  "statusCode \<in> {StatusBadRequest, StatusUnauthorized, StatusInternalServerError} \<Longrightarrow>
   StatusCode (errorResponse NewRecorder kind description statusCode) \<noteq> Some 200"
  by (auto simp: StatusCode_errorResponse StatusBadRequest_def StatusUnauthorized_def
      StatusInternalServerError_def)

lemma Token_success_parsed:
  assumes "StatusCode (fst (Token m st NewRecorder req)) = Some 200"
  shows "ParseForm req = None"
proof (cases "ParseForm req")
  case None
  then show ?thesis .
next
  case (Some err)
  with assms show ?thesis
    by (simp add: Token_def internalServerError_def StatusCode_errorResponse
        StatusInternalServerError_def)
qed

lemma Token_refresh_success:
  assumes "ParseForm req = None" and "Get (Form req) ''grant_type'' = ''refresh_token''"
    and "StatusCode (fst (Token m st NewRecorder req)) = Some 200"
  shows "\<exists>s tr. validateRefreshGrant m st NewRecorder req = (NewRecorder, Some s) \<and>
           Get (Form req) ''refresh_token'' \<noteq> [] \<and>
           setTokens m (initial_tokenResponse m req) s ''refresh_token'' = Inr tr \<and>
           Token m st NewRecorder req =
             (jsonResponse (noCache NewRecorder) (Marshal_tokenResponse tr), st)"
proof -
  obtain rw1 ok where v: "validateTokenParams m NewRecorder req = (rw1, ok)" by fastforce
  have ok: "ok"
  proof (rule ccontr)
    assume "\<not> ok"
    with v assms(1) validateTokenParams_cases [OF v] assms(3) show False
      by (auto simp: Token_def dest: StatusCode_error_fresh [THEN notE, rotated])
  qed
  with validateTokenParams_cases [OF v] have rw1: "rw1 = NewRecorder" by simp
  obtain rw2 r where c: "validateRefreshGrant m st NewRecorder req = (rw2, r)" by fastforce
  have T: "Token m st NewRecorder req =
      (case r of None \<Rightarrow> (rw2, st)
       | Some session \<Rightarrow> (Token_assemble m rw2 req session ''refresh_token'', st))"
    using assms(1,2) v ok rw1 c by (simp add: Token_def split: option.split)
  have r: "r \<noteq> None"
  proof
    assume "r = None"
    with validateRefreshGrant_cases [OF c] T assms(3) show False
      by (auto dest: StatusCode_error_fresh [THEN notE, rotated])
  qed
  then obtain s where s: "r = Some s" by blast
  with validateRefreshGrant_cases [OF c] have rw2: "rw2 = NewRecorder" by simp
  have ne: "Get (Form req) ''refresh_token'' \<noteq> []"
    using c s by (auto simp: validateRefreshGrant_eq Let_def)
  obtain tr where tr: "setTokens m (initial_tokenResponse m req) s ''refresh_token'' = Inr tr"
  proof (cases "setTokens m (initial_tokenResponse m req) s ''refresh_token''")
    case (Inl err)
    with T s rw2 assms(3) have False
      by (simp add: Token_assemble_eq StatusCode_errorResponse StatusInternalServerError_def)
    then show ?thesis ..
  next
    case (Inr tr)
    then show ?thesis by (rule that)
  qed
  from T s rw2 tr c ne show ?thesis by (simp add: Token_assemble_eq)
qed

text \<open>
  C2. A request to the token endpoint with grant type \<^verbatim>\<open>refresh_token\<close> that is
  answered with 200 carries in the \<^verbatim>\<open>refresh_token\<close> field of its body the refresh
  token the request submitted, and in its access token the one minted for the session.
  With the grant type \<^verbatim>\<open>refresh_token\<close> the assembly does not depend on the minting
  of refresh tokens at all (it is the same for every minting function put in its place).
  For every grant type a successful assembly holds the minted access token, and it holds
  a minted refresh token exactly when the grant type is not \<^verbatim>\<open>refresh_token\<close>;
  otherwise it keeps the refresh token it started with.
\<close>

theorem refresh_token_echoed:
  assumes "Get (Form req) ''grant_type'' = ''refresh_token''"
    and "StatusCode (fst (Token m st NewRecorder req)) = Some 200"
  shows
    "field (Body (fst (Token m st NewRecorder req))) ''refresh_token'' =
       Some (JString (Get (Form req) ''refresh_token'')) \<and>
     (\<exists>s tr. Body (fst (Token m st NewRecorder req)) = [Marshal_tokenResponse tr] \<and>
        RefreshToken tr = Get (Form req) ''refresh_token'' \<and>
        Session_AccessToken m s (Now m) = Inr (AccessToken tr)) \<and>
     (\<forall>f s tr. setTokens (m\<lparr>Session_RefreshToken := f\<rparr>) tr s ''refresh_token'' =
        setTokens m tr s ''refresh_token'') \<and>
     (\<forall>s tr g tr'. setTokens m tr s g = Inr tr' \<longrightarrow>
        Session_AccessToken m s (Now m) = Inr (AccessToken tr') \<and>
        (if g = ''refresh_token'' then RefreshToken tr' = RefreshToken tr
         else Session_RefreshToken m s (Now m) = Inr (RefreshToken tr')))"
proof -
  from Token_refresh_success [OF Token_success_parsed [OF assms(2)] assms] obtain s tr where
    ne: "Get (Form req) ''refresh_token'' \<noteq> []" and
    tr: "setTokens m (initial_tokenResponse m req) s ''refresh_token'' = Inr tr" and
    T: "Token m st NewRecorder req =
          (jsonResponse (noCache NewRecorder) (Marshal_tokenResponse tr), st)"
    by blast
  have echo: "RefreshToken tr = Get (Form req) ''refresh_token''"
    using setTokens_Inr(5) [OF tr] by (simp add: initial_tokenResponse_def)
  have body: "Body (fst (Token m st NewRecorder req)) = [Marshal_tokenResponse tr]"
    by (simp add: T Body_jsonResponse)
  have 1: "field (Body (fst (Token m st NewRecorder req))) ''refresh_token'' =
      Some (JString (Get (Form req) ''refresh_token''))"
    using ne echo by (simp add: body field_refresh_token)
  have 2: "\<exists>s tr. Body (fst (Token m st NewRecorder req)) = [Marshal_tokenResponse tr] \<and>
        RefreshToken tr = Get (Form req) ''refresh_token'' \<and>
        Session_AccessToken m s (Now m) = Inr (AccessToken tr)"
    using body echo setTokens_Inr(1) [OF tr] by blast
  have 4: "Session_AccessToken m s (Now m) = Inr (AccessToken tr') \<and>
        (if g = ''refresh_token'' then RefreshToken tr' = RefreshToken tr
         else Session_RefreshToken m s (Now m) = Inr (RefreshToken tr'))"
    if "setTokens m tr s g = Inr tr'" for s tr g tr'
    using setTokens_Inr(1,4,5) [OF that] by simp
  from 1 2 4 show ?thesis
    by (intro conjI allI impI) (simp_all add: setTokens_refresh_ignores_mint)
qed


text \<open>The refresh token \<open>rt-c1\<close> comes back from the concrete server.\<close>

theorem refresh_token_echoed_witness:
  "StatusCode (fst (Token example_m example_st NewRecorder (refresh_request ''rt-c1''))) = Some 200 \<and>
   field (Body (fst (Token example_m example_st NewRecorder (refresh_request ''rt-c1''))))
     ''refresh_token'' = Some (JString ''rt-c1'')"
proof -
  have h: "ParseForm (refresh_request ''rt-c1'') = None"
    "Get (Form (refresh_request ''rt-c1'')) ''grant_type'' = ''refresh_token''"
    "Get (Form (refresh_request ''rt-c1'')) ''refresh_token'' = ''rt-c1''"
    by (simp_all add: refresh_request_def Get_form_of ParseForm_form_of)
  have ok: "StatusCode (fst (Token example_m example_st NewRecorder (refresh_request ''rt-c1'')))
      = Some 200"
    by code_simp
  from refresh_token_echoed [OF h(2) ok, THEN conjunct1] h(3) ok show ?thesis by simp
qed

text \<open>
  C3. Let the token assembly for a session succeed, for either grant. The response is 200,
  and its body has the field \<^verbatim>\<open>id_token\<close> exactly when the scopes of the session start
  with \<^verbatim>\<open>openid\<close> (and the ID token minted is not the empty string, which
  \<^verbatim>\<open>omitempty\<close> would leave out); the field is then the ID token minted for the
  session. When the first scope is another one there is no ID token, wherever else
  \<^verbatim>\<open>openid\<close> may occur among the scopes.
\<close>

theorem id_token_iff_openid_first:
  assumes "setTokens m (initial_tokenResponse m req) s grantType = Inr tr"
  shows
    "StatusCode (Token_assemble m NewRecorder req s grantType) = Some 200 \<and>
     field (Body (Token_assemble m NewRecorder req s grantType)) ''id_token'' =
       (if (\<exists>rest. Scopes s = ''openid'' # rest) \<and> IDToken tr \<noteq> []
        then Some (JString (IDToken tr)) else None) \<and>
     ((\<exists>rest. Scopes s = ''openid'' # rest) \<longrightarrow>
        Session_IDToken m s (Now m) = Inr (IDToken tr)) \<and>
     (\<not> (\<exists>rest. Scopes s = ''openid'' # rest) \<longrightarrow> IDToken tr = []) \<and>
     (\<forall>scope rest. Scopes s = scope # rest \<and> scope \<noteq> ''openid'' \<longrightarrow>
        field (Body (Token_assemble m NewRecorder req s grantType)) ''id_token'' = None)"
proof -
  have A: "Token_assemble m NewRecorder req s grantType =
      jsonResponse (noCache NewRecorder) (Marshal_tokenResponse tr)"
    using assms by (simp add: Token_assemble_eq)
  have none: "IDToken tr = []" if "\<not> (\<exists>rest. Scopes s = ''openid'' # rest)"
    using setTokens_Inr(3) [OF assms that] by (simp add: initial_tokenResponse_def)
  have f: "field (Body (Token_assemble m NewRecorder req s grantType)) ''id_token'' =
       (if (\<exists>rest. Scopes s = ''openid'' # rest) \<and> IDToken tr \<noteq> []
        then Some (JString (IDToken tr)) else None)"
    using none by (auto simp: A Body_jsonResponse field_id_token)
  have later: "field (Body (Token_assemble m NewRecorder req s grantType)) ''id_token'' = None"
    if "Scopes s = scope # rest \<and> scope \<noteq> ''openid''" for scope rest
    using that by (simp add: f)
  from f none later setTokens_Inr(2) [OF assms] show ?thesis
    by (simp add: A StatusCode_jsonResponse StatusOK_def)
qed

text \<open>
  On the concrete server the session with scopes \<open>openid profile\<close> gets an ID token, the
  session with scopes \<open>email openid\<close> gets none.
\<close>

theorem id_token_iff_openid_first_witness:
  "field (Body (Token_assemble example_m NewRecorder (code_request ''c1'') example_session
      ''authorization_code'')) ''id_token'' = Some (JString ''id-c1'') \<and>
   field (Body (Token_assemble example_m NewRecorder (refresh_request ''rt-c2'') example_granted
      ''refresh_token'')) ''id_token'' = None"
proof -
  have 1: "setTokens example_m (initial_tokenResponse example_m (code_request ''c1''))
      example_session ''authorization_code'' =
    Inr \<lparr>AccessToken = ''at-c1'', RefreshToken = ''rt-c1'', IDToken = ''id-c1'',
         TokenType = ''bearer'', ExpiresIn = 600\<rparr>"
    by (simp add: setTokens_def example_m_def example_session_def initial_tokenResponse_def
        openidScope_def code_request_def Get_form_of)
  have 2: "setTokens example_m (initial_tokenResponse example_m (refresh_request ''rt-c2''))
      example_granted ''refresh_token'' =
    Inr \<lparr>AccessToken = ''at-c2'', RefreshToken = ''rt-c2'', IDToken = [],
         TokenType = ''bearer'', ExpiresIn = 600\<rparr>"
    by (simp add: setTokens_def example_m_def example_granted_def initial_tokenResponse_def
        openidScope_def refresh_request_def Get_form_of)
  from id_token_iff_openid_first [OF 1] id_token_iff_openid_first [OF 2] show ?thesis
    by (simp add: example_session_def example_granted_def)
qed

end
